theory Spec2Isabelle
  imports Main "HOL-Library.Sublist"
begin

section \<open>The Bing chat clone notebook: data and operations\<close>

text \<open>
  The repository is one notebook, \<^verbatim>\<open>08-BingChatClone.ipynb\<close>. Its own code is
  \<^item> \<^verbatim>\<open>printmd\<close>, which prepares a text for Markdown display,
  \<^item> the tool class \<^verbatim>\<open>MyBingSearch\<close> with \<^verbatim>\<open>_run\<close> and \<^verbatim>\<open>_arun\<close>,
  \<^item> the list \<^verbatim>\<open>tools = [MyBingSearch(k=5)]\<close>, and
  \<^item> two cells that call \<^verbatim>\<open>agent_executor.run(QUESTION)\<close> in a bounded retry loop.

  The chat model, the agent executor, the Bing wrapper and the Markdown display are
  library code. What the agent executor and the search backend answer is a parameter of
  the model below, never a definition.
\<close>

subsection \<open>Text preparation: \<^verbatim>\<open>printmd\<close>\<close>

text \<open>
  Python's \<^verbatim>\<open>str.replace(old, new)\<close>: all occurrences, left to right, not overlapping.
  With an empty \<^verbatim>\<open>old\<close> Python puts \<^verbatim>\<open>new\<close> before every character and at the end.
\<close>

function str_replace :: "string \<Rightarrow> string \<Rightarrow> string \<Rightarrow> string" where
  "str_replace old new s =
     (if old = [] then new @ concat (map (\<lambda>c. c # new) s)
      else if s = [] then []
      else if prefix old s then new @ str_replace old new (drop (length old) s)
      else hd s # str_replace old new (tl s))"
  by pat_completeness auto
termination
  by (relation "measure (\<lambda>(old, new, s). length s)") auto

text \<open>
  \<^verbatim>\<open>def printmd(string): display(Markdown(string.replace("$","USD ")))\<close>

  The model returns the text that is handed to the Markdown display.
\<close>

definition printmd :: "string \<Rightarrow> string" where
  "printmd string = str_replace ''$'' ''USD '' string"

subsection \<open>Exceptions\<close>

text \<open>
  What a Python call raises. The payload is the text \<^verbatim>\<open>str(e)\<close> yields.
  \<^verbatim>\<open>NotImplementedError\<close> is a subclass of \<^verbatim>\<open>Exception\<close>; \<open>BaseException\<close> stands for
  a raised object that is not an \<^verbatim>\<open>Exception\<close> (\<^verbatim>\<open>KeyboardInterrupt\<close>, \<^verbatim>\<open>SystemExit\<close>),
  which \<^verbatim>\<open>except Exception\<close> does not catch.
\<close>

datatype py_exception =
    Exception string
  | NotImplementedError string
  | BaseException string

fun is_Exception :: "py_exception \<Rightarrow> bool" where
  "is_Exception (Exception m) = True"
| "is_Exception (NotImplementedError m) = True"
| "is_Exception (BaseException m) = False"

fun str :: "py_exception \<Rightarrow> string" where
  "str (Exception m) = m"
| "str (NotImplementedError m) = m"
| "str (BaseException m) = m"

subsection \<open>The search tool: \<^verbatim>\<open>MyBingSearch\<close>\<close>

text \<open>
  One entry of an answer of the backend is a Python \<^verbatim>\<open>dict\<close> with text keys and values,
  here the list of its items.
\<close>

type_synonym py_dict = "(string \<times> string) list"

text \<open>\<^verbatim>\<open>BingSearchAPIWrapper(k=...)\<close>: the library's wrapper object, built with its \<^verbatim>\<open>k\<close>.\<close>

datatype BingSearchAPIWrapper = BingSearchAPIWrapper int

text \<open>
  The search backend is a parameter: what \<^verbatim>\<open>bing.results(query, num_results=n)\<close> answers
  in a backend state, either a raised exception or a list of entries, with the next
  backend state. The world seen by the notebook is that state together with the list of calls
  made to the backend, oldest first.
\<close>

type_synonym 'b backend =
  "BingSearchAPIWrapper \<Rightarrow> string \<Rightarrow> int \<Rightarrow> 'b \<Rightarrow> (py_exception + py_dict list) \<times> 'b"

record 'b world =
  calls :: "(BingSearchAPIWrapper \<times> string \<times> int) list"
  backend_state :: 'b

definition results ::
  "'b backend \<Rightarrow> BingSearchAPIWrapper \<Rightarrow> string \<Rightarrow> int \<Rightarrow> 'b world
     \<Rightarrow> (py_exception + py_dict list) \<times> 'b world" where
  "results backend bing query num_results w =
     (case backend bing query num_results (backend_state w) of
        (r, b') \<Rightarrow> (r, \<lparr>calls = calls w @ [(bing, query, num_results)], backend_state = b'\<rparr>))"

text \<open>
  \<^verbatim>\<open>class MyBingSearch(BaseTool): ... k: int = 2\<close>. The field is a Python \<^verbatim>\<open>int\<close> with no
  validator. The class attributes \<^verbatim>\<open>name\<close> and \<^verbatim>\<open>description\<close> are constants and play no
  part below.
\<close>

record MyBingSearch =
  k :: int

definition MyBingSearch_init :: "int option \<Rightarrow> MyBingSearch" where
  "MyBingSearch_init k_arg = \<lparr>k = (case k_arg of None \<Rightarrow> 2 | Some v \<Rightarrow> v)\<rparr>"

text \<open>
  \<^verbatim>\<open>def _run(self, query): bing = BingSearchAPIWrapper(k=self.k);
  return bing.results(query, num_results=self.k)\<close>

  There is no \<^verbatim>\<open>try\<close>: what the backend raises, \<^verbatim>\<open>_run\<close> raises.
\<close>

definition MyBingSearch_run ::
  "'b backend \<Rightarrow> MyBingSearch \<Rightarrow> string \<Rightarrow> 'b world
     \<Rightarrow> (py_exception + py_dict list) \<times> 'b world" where
  "MyBingSearch_run backend self query w =
     (let bing = BingSearchAPIWrapper (k self)
      in results backend bing query (k self) w)"

text \<open>
  \<^verbatim>\<open>async def _arun(self, query): raise NotImplementedError("This Tool does not support async")\<close>

  The model is the awaited call.
\<close>

definition MyBingSearch_arun ::
  "MyBingSearch \<Rightarrow> string \<Rightarrow> 'b world \<Rightarrow> (py_exception + py_dict list) \<times> 'b world" where
  "MyBingSearch_arun self query w =
     (Inl (NotImplementedError ''This Tool does not support async''), w)"

text \<open>\<^verbatim>\<open>tools = [MyBingSearch(k=5)]\<close>\<close>

definition tools :: "MyBingSearch list" where
  "tools = [MyBingSearch_init (Some 5)]"

subsection \<open>The retry cells\<close>

text \<open>
  \<^verbatim>\<open>agent_executor.run(QUESTION)\<close> is library code driven by a chat model: a parameter that,
  in a state of the outside world, either raises or returns the answer text.
\<close>

type_synonym 'w agent_run = "string \<Rightarrow> 'w \<Rightarrow> (py_exception + string) \<times> 'w"

text \<open>
  \<^verbatim>\<open>
  for i in range(n):
      try:
          response = agent_executor.run(QUESTION)
          break
      except Exception as e:
          response = str(e)
          continue
  \<close>
  The variable \<^verbatim>\<open>response\<close> is \<open>None\<close> while it is unbound. The result is \<open>Inr\<close> of its
  value when the loop ends, \<open>Inl\<close> when something that is not an \<^verbatim>\<open>Exception\<close> passes
  through the \<^verbatim>\<open>except\<close> clause.
\<close>

fun retry_loop ::
  "nat \<Rightarrow> 'w agent_run \<Rightarrow> string \<Rightarrow> string option \<Rightarrow> 'w
     \<Rightarrow> (py_exception + string option) \<times> 'w" where
  "retry_loop 0 run QUESTION response w = (Inr response, w)"
| "retry_loop (Suc n) run QUESTION response w =
     (case run QUESTION w of
        (Inr r, w') \<Rightarrow> (Inr (Some r), w')
      | (Inl e, w') \<Rightarrow>
          if is_Exception e then retry_loop n run QUESTION (Some (str e)) w'
          else (Inl e, w'))"

text \<open>The first cell loops over \<^verbatim>\<open>range(2)\<close>, the second over \<^verbatim>\<open>range(3)\<close>.\<close>

definition retry_cell_2 ::
  "'w agent_run \<Rightarrow> string \<Rightarrow> string option \<Rightarrow> 'w \<Rightarrow> (py_exception + string option) \<times> 'w" where
  "retry_cell_2 = retry_loop 2"

definition retry_cell_3 ::
  "'w agent_run \<Rightarrow> string \<Rightarrow> string option \<Rightarrow> 'w \<Rightarrow> (py_exception + string option) \<times> 'w" where
  "retry_cell_3 = retry_loop 3"

text \<open>
  To speak about successive attempts: the world after \<open>i\<close> calls of the agent in a row,
  and what call number \<open>i\<close> (counted from 0) answers.
\<close>

fun world_after :: "'w agent_run \<Rightarrow> string \<Rightarrow> 'w \<Rightarrow> nat \<Rightarrow> 'w" where
  "world_after run QUESTION w 0 = w"
| "world_after run QUESTION w (Suc i) = world_after run QUESTION (snd (run QUESTION w)) i"


subsection \<open>The spec's notions, for comparison with the code\<close>

text \<open>
  The spec's citation marker is the numbered reference \<^verbatim>\<open>[n]\<close>, the form the prompt
  prescribes. \<open>spec_citation_indices\<close> lists the indices of the markers of a text, in
  order.
\<close>

definition spec_is_digit :: "char \<Rightarrow> bool" where
  "spec_is_digit c = (c \<in> set ''0123456789'')"

definition spec_nat_of_digits :: "string \<Rightarrow> nat" where
  "spec_nat_of_digits ds = foldl (\<lambda>acc c. 10 * acc + (of_char c - 48)) 0 ds"

definition spec_marker_at :: "string \<Rightarrow> nat option" where
  "spec_marker_at cs =
     (let ds = takeWhile spec_is_digit cs; rest = dropWhile spec_is_digit cs
      in if ds \<noteq> [] \<and> take 1 rest = '']'' then Some (spec_nat_of_digits ds) else None)"

fun spec_citation_indices :: "string \<Rightarrow> nat list" where
  "spec_citation_indices [] = []"
| "spec_citation_indices (c # cs) =
     (if c = CHR ''[''
      then (case spec_marker_at cs of
              Some n \<Rightarrow> n # spec_citation_indices cs
            | None \<Rightarrow> spec_citation_indices cs)
      else spec_citation_indices cs)"

text \<open>
  The spec's \<open>SearchResult\<close>, and the links of a session: the distinct links of its
  Observations, in the order of their first appearance. Index \<open>n\<close> resolves when it is
  the position of one of them.
\<close>

record SearchResult =
  snippet :: string
  title :: string
  link :: string

definition spec_session_links :: "SearchResult list list \<Rightarrow> string list" where
  "spec_session_links observations = rev (remdups (rev (map link (concat observations))))"

definition spec_no_fabrication :: "SearchResult list list \<Rightarrow> string \<Rightarrow> bool" where
  "spec_no_fabrication observations rendered =
     (\<forall>n \<in> set (spec_citation_indices rendered).
        1 \<le> n \<and> n \<le> length (spec_session_links observations))"

text \<open>The spec's input constraints of a search: a positive limit, a query not blank.\<close>

definition spec_is_space :: "char \<Rightarrow> bool" where
  "spec_is_space c = (c \<in> set [CHR '' '', CHR 0x09, CHR 0x0A, CHR 0x0B, CHR 0x0C, CHR 0x0D])"

definition spec_trim :: "string \<Rightarrow> string" where
  "spec_trim s = rev (dropWhile spec_is_space (rev (dropWhile spec_is_space s)))"

definition spec_valid_call :: "BingSearchAPIWrapper \<times> string \<times> int \<Rightarrow> bool" where
  "spec_valid_call c = (case c of (bing, query, num_results) \<Rightarrow>
     0 < num_results \<and> spec_trim query \<noteq> [])"

text \<open>
  The spec's postcondition of a search with limit \<open>k\<close>: at most \<open>k\<close> entries, each with a
  snippet, a title and a link.
\<close>

definition spec_is_search_result :: "py_dict \<Rightarrow> bool" where
  "spec_is_search_result entry =
     (map_of entry ''snippet'' \<noteq> None \<and> map_of entry ''title'' \<noteq> None
      \<and> map_of entry ''link'' \<noteq> None)"

definition spec_search_postcondition :: "int \<Rightarrow> py_dict list \<Rightarrow> bool" where
  "spec_search_postcondition limit rs =
     (int (length rs) \<le> limit \<and> list_all spec_is_search_result rs)"

section \<open>Properties of the text preparation\<close>

lemma str_replace_Nil: "str_replace [c] new [] = []"
  by simp

lemma str_replace_Cons:
  "str_replace [c] new (x # xs) =
     (if x = c then new @ str_replace [c] new xs else x # str_replace [c] new xs)"
  by (subst str_replace.simps) simp

lemma str_replace_single:
  "str_replace [c] new s = concat (map (\<lambda>x. if x = c then new else [x]) s)"
  by (induction s) (simp_all add: str_replace_Nil str_replace_Cons del: str_replace.simps)

lemma printmd_Nil: "printmd [] = []"
  by (simp add: printmd_def)

lemma printmd_Cons:
  "printmd (x # xs) = (if x = CHR ''$'' then ''USD '' @ printmd xs else x # printmd xs)"
  unfolding printmd_def by (rule str_replace_Cons)

lemma printmd_concat:
  "printmd s = concat (map (\<lambda>c. if c = CHR ''$'' then ''USD '' else [c]) s)"
  unfolding printmd_def by (rule str_replace_single)

lemma dollar_notin_printmd: "CHR ''$'' \<notin> set (printmd s)"
  by (induction s) (simp_all add: printmd_Nil printmd_Cons)

lemma printmd_without_dollar: "CHR ''$'' \<notin> set s \<Longrightarrow> printmd s = s"
  by (induction s) (auto simp add: printmd_Nil printmd_Cons)

subsection \<open>Citation markers pass through\<close>

lemma not_digit_replacement: "\<not> spec_is_digit CHR ''U''" "\<not> spec_is_digit CHR ''$''"
  by (simp_all add: spec_is_digit_def)

lemma takeWhile_digit_printmd: "takeWhile spec_is_digit (printmd s) = takeWhile spec_is_digit s"
  by (induction s) (simp_all add: printmd_Nil printmd_Cons not_digit_replacement)

lemma dropWhile_digit_printmd:
  "dropWhile spec_is_digit (printmd s) = printmd (dropWhile spec_is_digit s)"
  by (induction s) (simp_all add: printmd_Nil printmd_Cons not_digit_replacement)

lemma closing_bracket_printmd:
  "take (Suc 0) (printmd s) = '']'' \<longleftrightarrow> take (Suc 0) s = '']''"
  by (cases s) (simp_all add: printmd_Nil printmd_Cons)

lemma marker_at_printmd: "spec_marker_at (printmd s) = spec_marker_at s"
  by (simp add: spec_marker_at_def takeWhile_digit_printmd dropWhile_digit_printmd
      closing_bracket_printmd)

text \<open>
  Claim C1, as the spec states it: every citation index in the rendered answer resolves
  to a link of an Observation of the session, and a marker without such a link is
  stripped or annotated by the renderer, never passed through.

  The code's renderer is \<open>printmd\<close>. It takes the answer text alone and changes nothing
  but dollar signs. So every stretch of the answer text that holds no dollar sign, a
  citation marker among them, is rendered as it is and where it is, between the
  renderings of what comes before and after it; a text without a dollar sign is
  rendered unchanged. The rendered answer has exactly the citation indices of the answer
  text, in the same order, whatever the session observed, and satisfies the
  no-fabrication property exactly when the answer text already does.
\<close>

theorem printmd_keeps_citation_markers:
  "printmd response = concat (map (\<lambda>c. if c = CHR ''$'' then ''USD '' else [c]) response)
   \<and> (CHR ''$'' \<notin> set marker
        \<longrightarrow> printmd (before @ marker @ after) = printmd before @ marker @ printmd after)
   \<and> (CHR ''$'' \<notin> set response \<longrightarrow> printmd response = response)
   \<and> spec_citation_indices (printmd response) = spec_citation_indices response
   \<and> spec_no_fabrication observations (printmd response)
       = spec_no_fabrication observations response"
proof (intro conjI impI)
  show "printmd response = concat (map (\<lambda>c. if c = CHR ''$'' then ''USD '' else [c]) response)"
    by (rule printmd_concat)
next
  assume "CHR ''$'' \<notin> set marker"
  then have "printmd marker = marker"
    by (rule printmd_without_dollar)
  then show "printmd (before @ marker @ after) = printmd before @ marker @ printmd after"
    by (simp add: printmd_concat)
next
  assume "CHR ''$'' \<notin> set response"
  then show "printmd response = response"
    by (rule printmd_without_dollar)
next
  show markers: "spec_citation_indices (printmd response) = spec_citation_indices response"
    by (induction response)
      (simp_all add: printmd_Nil printmd_Cons marker_at_printmd split: option.split)
  then show "spec_no_fabrication observations (printmd response)
      = spec_no_fabrication observations response"
    by (simp add: spec_no_fabrication_def)
qed

theorem printmd_keeps_citation_markers_witness:
  "CHR ''$'' \<notin> set ''[2]''
   \<and> printmd (''$5 in Paris [1] '' @ ''[2]'' @ '' for $9'')
       = ''USD 5 in Paris [1] '' @ ''[2]'' @ '' for USD 9''
   \<and> printmd ''Paris [1] [2]'' = ''Paris [1] [2]''
   \<and> spec_citation_indices (printmd ''Paris [1] [2]'') = [1, 2]
   \<and> \<not> spec_no_fabrication
         [[\<lparr>snippet = ''s'', title = ''t'', link = ''https://a.example/''\<rparr>]]
         (printmd ''Paris [1] [2]'')"
proof -
  have m: "CHR ''$'' \<notin> set ''[2]''" by simp
  have r: "CHR ''$'' \<notin> set ''Paris [1] [2]''" by simp
  have p: "printmd ''$5 in Paris [1] '' = ''USD 5 in Paris [1] ''"
    "printmd '' for $9'' = '' for USD 9''"
    by (simp_all add: printmd_Cons printmd_Nil)
  have i: "spec_citation_indices ''Paris [1] [2]'' = [1, 2]"
    by (simp add: spec_marker_at_def spec_is_digit_def spec_nat_of_digits_def)
  have f: "\<not> spec_no_fabrication
      [[\<lparr>snippet = ''s'', title = ''t'', link = ''https://a.example/''\<rparr>]] ''Paris [1] [2]''"
    unfolding spec_no_fabrication_def i by (simp add: spec_session_links_def)
  from printmd_keeps_citation_markers
    [of "''Paris [1] [2]''" "''[2]''" "''$5 in Paris [1] ''" "'' for $9''"
        "[[\<lparr>snippet = ''s'', title = ''t'', link = ''https://a.example/''\<rparr>]]"]
    m r p i f
  show ?thesis by simp
qed

text \<open>
  Against C1 as stated: a session whose one Observation holds one link, and an answer
  text that cites \<^verbatim>\<open>[1]\<close> and \<^verbatim>\<open>[2]\<close>. The text is rendered unchanged, so the marker
  \<^verbatim>\<open>[2]\<close>, which resolves to no link, is passed through.
\<close>

theorem printmd_fabricated_citation_counterexample:
  "spec_session_links [[\<lparr>snippet = ''s'', title = ''t'', link = ''https://a.example/''\<rparr>]]
     = [''https://a.example/'']
   \<and> printmd ''Paris [1] [2]'' = ''Paris [1] [2]''
   \<and> spec_citation_indices (printmd ''Paris [1] [2]'') = [1, 2]
   \<and> \<not> spec_no_fabrication
         [[\<lparr>snippet = ''s'', title = ''t'', link = ''https://a.example/''\<rparr>]]
         (printmd ''Paris [1] [2]'')"
  by (simp add: printmd_Cons printmd_Nil spec_no_fabrication_def spec_session_links_def
      spec_marker_at_def spec_is_digit_def spec_nat_of_digits_def)

text \<open>
  Claim C3, as the spec states it: a reserved markup character such as the dollar sign
  appears unescaped and identical in the rendered output; rendering is lossless.

  What the code does: \<open>printmd\<close> replaces every dollar sign by the four characters
  \<^verbatim>\<open>USD \<close> and leaves every other character as it is, in order. The rendered text never
  contains a dollar sign; nothing restores it.
\<close>

theorem printmd_replaces_dollar:
  "printmd s = concat (map (\<lambda>c. if c = CHR ''$'' then ''USD '' else [c]) s)
   \<and> CHR ''$'' \<notin> set (printmd s)"
proof
  show "printmd s = concat (map (\<lambda>c. if c = CHR ''$'' then ''USD '' else [c]) s)"
    unfolding printmd_def by (rule str_replace_single)
  show "CHR ''$'' \<notin> set (printmd s)"
    by (rule dollar_notin_printmd)
qed

theorem printmd_replaces_dollar_witness:
  "printmd ''with $7000'' = ''with USD 7000'' \<and> CHR ''$'' \<notin> set (printmd ''with $7000'')"
  using printmd_replaces_dollar [of "''with $7000''"] by simp

text \<open>
  Against C3 as stated: the dollar sign of the input is gone from the output, and two
  different inputs are rendered alike, so the input cannot be recovered.
\<close>

theorem printmd_dollar_counterexample:
  "CHR ''$'' \<in> set ''with $7000''
   \<and> printmd ''with $7000'' = ''with USD 7000''
   \<and> CHR ''$'' \<notin> set (printmd ''with $7000'')
   \<and> printmd ''$1'' = printmd ''USD 1'' \<and> ''$1'' \<noteq> ''USD 1''"
  by (simp add: printmd_Cons printmd_Nil)

section \<open>Properties of the search tool\<close>

lemma MyBingSearch_run_eq:
  "MyBingSearch_run backend self query w =
     (fst (backend (BingSearchAPIWrapper (k self)) query (k self) (backend_state w)),
      \<lparr>calls = calls w @ [(BingSearchAPIWrapper (k self), query, k self)],
       backend_state =
         snd (backend (BingSearchAPIWrapper (k self)) query (k self) (backend_state w))\<rparr>)"
  by (simp add: MyBingSearch_run_def results_def Let_def split: prod.split)

lemma k_init: "k (MyBingSearch_init (Some v)) = v" "k (MyBingSearch_init None) = 2"
  by (simp_all add: MyBingSearch_init_def)

lemma k_tools: "self \<in> set tools \<Longrightarrow> k self = 5"
  by (simp add: tools_def MyBingSearch_init_def)

text \<open>
  Claim C7, as the spec states it: for every query the search operation returns an
  ordered sequence of entries, each with a snippet, a title and a link, and at most \<open>k\<close>
  of them, where \<open>k\<close> is the limit the tool was built with (5 in the notebook).

  What the code does: \<^verbatim>\<open>_run\<close> asks the backend for \<open>k self\<close> entries and returns the
  answer as it is. It returns a list exactly when the backend answers that list, in the
  backend's order, the one call recorded; nothing is cut, dropped or looked at. The
  notebook's tool asks for 5. How many entries come back, and with which keys, is the
  backend's matter.
\<close>

theorem run_returns_backend_answer:
  "(MyBingSearch_run backend self query w = (Inr rs, w'))
     = (backend (BingSearchAPIWrapper (k self)) query (k self) (backend_state w)
          = (Inr rs, backend_state w')
        \<and> calls w' = calls w @ [(BingSearchAPIWrapper (k self), query, k self)])
   \<and> (self \<in> set tools \<longrightarrow> k self = 5)"
proof (intro conjI impI)
  let ?answer = "backend (BingSearchAPIWrapper (k self)) query (k self) (backend_state w)"
  let ?call = "(BingSearchAPIWrapper (k self), query, k self)"
  have run: "MyBingSearch_run backend self query w
      = (fst ?answer, \<lparr>calls = calls w @ [?call], backend_state = snd ?answer\<rparr>)"
    by (rule MyBingSearch_run_eq)
  show "(MyBingSearch_run backend self query w = (Inr rs, w'))
      = (?answer = (Inr rs, backend_state w') \<and> calls w' = calls w @ [?call])"
  proof
    assume "MyBingSearch_run backend self query w = (Inr rs, w')"
    with run have "fst ?answer = Inr rs"
      and "w' = \<lparr>calls = calls w @ [?call], backend_state = snd ?answer\<rparr>"
      by simp_all
    then show "?answer = (Inr rs, backend_state w') \<and> calls w' = calls w @ [?call]"
      by (simp add: prod_eq_iff)
  next
    assume "?answer = (Inr rs, backend_state w') \<and> calls w' = calls w @ [?call]"
    then have "fst ?answer = Inr rs"
      and "\<lparr>calls = calls w @ [?call], backend_state = snd ?answer\<rparr> = w'"
      by simp_all
    with run show "MyBingSearch_run backend self query w = (Inr rs, w')"
      by simp
  qed
next
  assume "self \<in> set tools"
  then show "k self = 5"
    by (rule k_tools)
qed

theorem run_returns_backend_answer_witness:
  "MyBingSearch_init (Some 5) \<in> set tools
   \<and> MyBingSearch_run
       (\<lambda>bing query n (b::unit).
          (Inr (take (nat n)
             (replicate 7 [(''snippet'', ''s''), (''title'', ''t''), (''link'', ''l'')])), b))
       (MyBingSearch_init (Some 5)) ''oil supply'' \<lparr>calls = [], backend_state = ()\<rparr>
     = (Inr (replicate 5 [(''snippet'', ''s''), (''title'', ''t''), (''link'', ''l'')]),
        \<lparr>calls = [(BingSearchAPIWrapper 5, ''oil supply'', 5)], backend_state = ()\<rparr>)"
proof -
  let ?e = "[(''snippet'', ''s''), (''title'', ''t''), (''link'', ''l'')]"
  let ?B = "\<lambda>(bing::BingSearchAPIWrapper) (query::string) (n::int) (b::unit).
      (Inr (take (nat n) (replicate 7 ?e)) :: py_exception + py_dict list, b)"
  let ?T = "MyBingSearch_init (Some 5)"
  let ?W = "\<lparr>calls = [], backend_state = ()\<rparr>"
  let ?W' = "\<lparr>calls = [(BingSearchAPIWrapper 5, ''oil supply'', 5)], backend_state = ()\<rparr>"
  have t: "?T \<in> set tools" by (simp add: tools_def)
  have b: "?B (BingSearchAPIWrapper (k ?T)) ''oil supply'' (k ?T) (backend_state ?W)
      = (Inr (replicate 5 ?e), backend_state ?W')"
    by (simp add: k_init min_def)
  have c: "calls ?W' = calls ?W @ [(BingSearchAPIWrapper (k ?T), ''oil supply'', k ?T)]"
    by (simp add: k_init)
  from run_returns_backend_answer [of ?B ?T "''oil supply''" ?W "replicate 5 ?e" ?W'] t b c
  show ?thesis by simp
qed

text \<open>
  Against C7 as stated: the notebook's tool, built with \<open>k = 5\<close>, returns seven entries
  when the backend answers seven, and returns an entry with none of the three keys when
  the backend answers one.
\<close>

theorem run_unbounded_result_counterexample:
  "MyBingSearch_init (Some 5) \<in> set tools
   \<and> fst (MyBingSearch_run
            (\<lambda>bing query n (b::unit).
               (Inr (replicate 7 [(''snippet'', ''s''), (''title'', ''t''), (''link'', ''l'')]), b))
            (MyBingSearch_init (Some 5)) ''oil supply'' \<lparr>calls = [], backend_state = ()\<rparr>)
       = Inr (replicate 7 [(''snippet'', ''s''), (''title'', ''t''), (''link'', ''l'')])
   \<and> \<not> spec_search_postcondition 5
         (replicate 7 [(''snippet'', ''s''), (''title'', ''t''), (''link'', ''l'')])
   \<and> fst (MyBingSearch_run
            (\<lambda>bing query n (b::unit).
               (Inr [[(''Result'', ''No good Bing Search Result was found'')]], b))
            (MyBingSearch_init (Some 5)) ''oil supply'' \<lparr>calls = [], backend_state = ()\<rparr>)
       = Inr [[(''Result'', ''No good Bing Search Result was found'')]]
   \<and> \<not> spec_search_postcondition 5 [[(''Result'', ''No good Bing Search Result was found'')]]"
  by (simp add: MyBingSearch_run_eq k_init tools_def spec_search_postcondition_def
      spec_is_search_result_def)

text \<open>
  Claim C8, as the spec states it: every call of the search operation has a positive
  result limit and a query that is not blank, and the adapter enforces both, so that the
  backend is never reached with a blank query or a limit that is not positive.

  The code has no such check. Every call of \<^verbatim>\<open>_run\<close> reaches the backend, once, with the
  query exactly as given and the limit \<open>k\<close> the tool was built with, and hands back what
  the backend answers. The constructor takes any integer (2 when none is given); the
  limit is positive in the notebook because its one tool is built with 5.
\<close>

theorem run_forwards_arguments_unchecked:
  "calls (snd (MyBingSearch_run backend self query w))
     = calls w @ [(BingSearchAPIWrapper (k self), query, k self)]
   \<and> fst (MyBingSearch_run backend self query w)
       = fst (backend (BingSearchAPIWrapper (k self)) query (k self) (backend_state w))
   \<and> k (MyBingSearch_init (Some v)) = v
   \<and> k (MyBingSearch_init None) = 2
   \<and> map k tools = [5]"
proof -
  have call: "MyBingSearch_run backend self query w
      = results backend (BingSearchAPIWrapper (k self)) query (k self) w"
    by (simp add: MyBingSearch_run_def)
  have "calls (snd (results backend (BingSearchAPIWrapper (k self)) query (k self) w))
      = calls w @ [(BingSearchAPIWrapper (k self), query, k self)]"
    by (simp add: results_def split: prod.split)
  moreover have "fst (results backend (BingSearchAPIWrapper (k self)) query (k self) w)
      = fst (backend (BingSearchAPIWrapper (k self)) query (k self) (backend_state w))"
    by (simp add: results_def split: prod.split)
  moreover have "map k tools = [5]"
    by (simp add: tools_def MyBingSearch_init_def)
  ultimately show ?thesis
    using call by (simp add: MyBingSearch_init_def)
qed

theorem run_forwards_arguments_unchecked_witness:
  "calls (snd (MyBingSearch_run (\<lambda>bing query n (b::unit). (Inr [], b))
            (MyBingSearch_init (Some (- 1))) [] \<lparr>calls = [], backend_state = ()\<rparr>))
     = [(BingSearchAPIWrapper (- 1), [], - 1)]"
  using run_forwards_arguments_unchecked
    [of "\<lambda>bing query n (b::unit). (Inr [], b)" "MyBingSearch_init (Some (- 1))" "[]"
        "\<lparr>calls = [], backend_state = ()\<rparr>" "- 1"]
  by (simp add: k_init)

text \<open>
  Against C8 as stated: the notebook's tool called with a blank query reaches the
  backend with that query, and a tool built with \<open>k = 0\<close> reaches it with the limit 0.
\<close>

theorem run_unchecked_input_counterexample:
  "calls (snd (MyBingSearch_run (\<lambda>bing query n (b::unit). (Inr [], b))
            (MyBingSearch_init (Some 5)) ''   '' \<lparr>calls = [], backend_state = ()\<rparr>))
     = [(BingSearchAPIWrapper 5, ''   '', 5)]
   \<and> \<not> spec_valid_call (BingSearchAPIWrapper 5, ''   '', 5)
   \<and> calls (snd (MyBingSearch_run (\<lambda>bing query n (b::unit). (Inr [], b))
            (MyBingSearch_init (Some 0)) ''oil supply'' \<lparr>calls = [], backend_state = ()\<rparr>))
     = [(BingSearchAPIWrapper 0, ''oil supply'', 0)]
   \<and> \<not> spec_valid_call (BingSearchAPIWrapper 0, ''oil supply'', 0)"
  by (simp add: MyBingSearch_run_eq k_init spec_valid_call_def spec_trim_def spec_is_space_def)

text \<open>
  Claim C10: the asynchronous variant \<^verbatim>\<open>_arun\<close> fails for every query with
  \<^verbatim>\<open>NotImplementedError\<close> and does not contact the backend; only the synchronous
  \<^verbatim>\<open>_run\<close> does the search.
\<close>

theorem arun_always_raises:
  "MyBingSearch_arun self query w
     = (Inl (NotImplementedError ''This Tool does not support async''), w)
   \<and> calls (snd (MyBingSearch_arun self query w)) = calls w
   \<and> length (calls (snd (MyBingSearch_run backend self query w))) = Suc (length (calls w))"
proof (intro conjI)
  show raised: "MyBingSearch_arun self query w
      = (Inl (NotImplementedError ''This Tool does not support async''), w)"
    by (simp add: MyBingSearch_arun_def)
  then show "calls (snd (MyBingSearch_arun self query w)) = calls w"
    by simp
  show "length (calls (snd (MyBingSearch_run backend self query w))) = Suc (length (calls w))"
    by (simp add: MyBingSearch_run_eq)
qed

theorem arun_always_raises_witness:
  "MyBingSearch_arun (MyBingSearch_init (Some 5)) ''oil supply''
       \<lparr>calls = [], backend_state = ()\<rparr>
     = (Inl (NotImplementedError ''This Tool does not support async''),
        \<lparr>calls = [], backend_state = ()\<rparr>)"
  using arun_always_raises
    [of "MyBingSearch_init (Some 5)" "''oil supply''" "\<lparr>calls = [], backend_state = ()\<rparr>"]
  by simp

section \<open>Properties of the retry cells\<close>









section \<open>Further properties of the code\<close>

lemma printmd_append: "printmd (a @ b) = printmd a @ printmd b"
  by (simp add: printmd_concat)

lemma length_printmd: "length (printmd s) = length s + 3 * count_list s CHR ''$''"
  by (induction s) (simp_all add: printmd_Nil printmd_Cons)

text \<open>
  \<open>printmd\<close> works character by character: it distributes over concatenation, it makes
  the text longer by three characters for every dollar sign, and applying it to its own
  output changes nothing.
\<close>

theorem printmd_homomorphic:
  "printmd (a @ b) = printmd a @ printmd b
   \<and> length (printmd s) = length s + 3 * count_list s CHR ''$''
   \<and> printmd (printmd s) = printmd s"
  by (simp add: printmd_append length_printmd printmd_without_dollar dollar_notin_printmd)

theorem printmd_homomorphic_witness:
  "printmd (''$7000 in '' @ ''$'') = ''USD 7000 in USD ''
   \<and> length (printmd ''a$'') = 5
   \<and> printmd (printmd ''a$'') = ''aUSD ''"
  using printmd_homomorphic [of "''$7000 in ''" "''$''" "''a$''"]
  by (simp add: printmd_Cons printmd_Nil)

lemma retry_runs_bounded:
  "\<exists>m\<le>n. snd (retry_loop n run q r w) = world_after run q w m"
proof (induction n arbitrary: r w)
  case 0
  then show ?case by simp
next
  case (Suc n)
  obtain x w1 where rw: "run q w = (x, w1)" by (cases "run q w")
  have one: "w1 = world_after run q w (Suc 0)" using rw by simp
  show ?case
  proof (cases x)
    case (Inr a)
    then have "snd (retry_loop (Suc n) run q r w) = world_after run q w (Suc 0)"
      using rw by simp
    then show ?thesis by (intro exI[of _ "Suc 0"]) simp
  next
    case (Inl e)
    show ?thesis
    proof (cases "is_Exception e")
      case True
      from Suc.IH [of "Some (str e)" w1] obtain m where
        m: "m \<le> n" "snd (retry_loop n run q (Some (str e)) w1) = world_after run q w1 m"
        by blast
      have "snd (retry_loop (Suc n) run q r w) = world_after run q w (Suc m)"
        using rw Inl True m(2) by simp
      then show ?thesis using m(1) by (intro exI[of _ "Suc m"]) simp
    next
      case False
      then have "snd (retry_loop (Suc n) run q r w) = world_after run q w (Suc 0)"
        using rw Inl by simp
      then show ?thesis by (intro exI[of _ "Suc 0"]) simp
    qed
  qed
qed

text \<open>
  The budget is a bound on the runs of the agent whatever they answer: the first cell
  makes at most two, the second at most three.
\<close>

theorem retry_cells_bounded:
  "(\<exists>m\<le>2. snd (retry_cell_2 run QUESTION response w) = world_after run QUESTION w m)
   \<and> (\<exists>m\<le>3. snd (retry_cell_3 run QUESTION response w) = world_after run QUESTION w m)"
  unfolding retry_cell_2_def retry_cell_3_def
  using retry_runs_bounded [of 2 run QUESTION response w]
    retry_runs_bounded [of 3 run QUESTION response w]
  by simp

theorem retry_cells_bounded_witness:
  "retry_cell_2 (\<lambda>Q (w::nat). (if w < 2 then Inl (Exception ''Could not parse LLM output'')
                                  else Inr ''Paris'', Suc w)) ''Q'' None 0
     = (Inr (Some ''Could not parse LLM output''), 2)"
proof -
  let ?run = "\<lambda>(Q::string) (w::nat). (if w < 2 then Inl (Exception ''Could not parse LLM output'')
                              else Inr ''Paris'' :: py_exception + string, Suc w)"
  have "retry_cell_2 ?run ''Q'' None 0 = (Inr (Some ''Could not parse LLM output''), 2)"
    by (simp add: retry_cell_2_def numeral_2_eq_2)
  with retry_cells_bounded [of ?run "''Q''" None 0] show ?thesis by simp
qed

text \<open>
  The \<^verbatim>\<open>except\<close> clause names \<^verbatim>\<open>Exception\<close>: what a run raises outside that class, such
  as \<^verbatim>\<open>KeyboardInterrupt\<close>, ends the loop at once and leaves the cell as raised.
\<close>

theorem retry_loop_passes_base_exception:
  assumes "run QUESTION w = (Inl e, w')" and "\<not> is_Exception e"
  shows "retry_loop (Suc n) run QUESTION response w = (Inl e, w')"
  using assms by simp

theorem retry_loop_passes_base_exception_witness:
  "retry_cell_2 (\<lambda>Q (w::nat). (Inl (BaseException ''KeyboardInterrupt''), Suc w)) ''Q'' None 0
     = (Inl (BaseException ''KeyboardInterrupt''), 1)"
proof -
  let ?run = "\<lambda>(Q::string) (w::nat).
      (Inl (BaseException ''KeyboardInterrupt'') :: py_exception + string, Suc w)"
  show ?thesis
    using retry_loop_passes_base_exception
      [of ?run "''Q''" 0 "BaseException ''KeyboardInterrupt''" 1 1 None]
    by (simp add: retry_cell_2_def numeral_2_eq_2)
qed

end
